theory Spec2Isabelle
  imports Main
begin

section \<open>The demo test server (demo/test-server.py)\<close>

text \<open>
  The script subclasses the standard library's \<^verbatim>\<open>http.server.SimpleHTTPRequestHandler\<close>,
  overriding \<^verbatim>\<open>end_headers\<close> and \<^verbatim>\<open>do_GET\<close>, and serves with a
  \<^verbatim>\<open>socketserver.TCPServer\<close> on port 8000 until it is interrupted.

  The two overriding methods and the start-up sequence are translated from the script.
  They call into the standard library, and the library calls back into the overriding
  \<^verbatim>\<open>end_headers\<close> through \<^verbatim>\<open>self\<close>; the library methods on that path
  (\<^verbatim>\<open>send_header\<close>, \<^verbatim>\<open>end_headers\<close>, \<^verbatim>\<open>flush_headers\<close>,
  \<^verbatim>\<open>send_response\<close>, \<^verbatim>\<open>send_error\<close>, \<^verbatim>\<open>send_head\<close>,
  \<^verbatim>\<open>do_GET\<close>, \<^verbatim>\<open>do_HEAD\<close> and the method dispatch of
  \<^verbatim>\<open>handle_one_request\<close>) are translated from CPython's
  \<^verbatim>\<open>Lib/http/server.py\<close>. What the library computes from the operating system,
  the clock and its formatting tables is a parameter of the model (the record \<open>lib\<close>) or
  a field of the state of the world (the record \<open>world\<close>).
\<close>

subsection \<open>Bytes and strings\<close>

text \<open>
  A \<^typ>\<open>char\<close> is one byte, so a \<^typ>\<open>string\<close> is both a Python \<^verbatim>\<open>bytes\<close> object
  and a \<^verbatim>\<open>str\<close> that encodes in latin-1 without error.
\<close>

definition CRLF :: string where
  "CRLF = [CHR 0x0D, CHR 0x0A]"

text \<open>\<^verbatim>\<open>str.lower\<close> on the letters that can make a header name or value compare equal
  to an ASCII word.\<close>

definition lower_char :: "char \<Rightarrow> char" where
  "lower_char c =
     (let n = (of_char c :: nat) in if 65 \<le> n \<and> n \<le> 90 then char_of (n + 32) else c)"

definition lower :: "string \<Rightarrow> string" where
  "lower s = map lower_char s"

subsection \<open>The request handler object\<close>

datatype exc = AttributeError | OSError | KeyboardInterrupt

text \<open>
  The attributes of a handler instance that the methods below read or write.
  \<open>headers_buffer\<close> is \<open>None\<close> while the instance has no \<^verbatim>\<open>_headers_buffer\<close>
  attribute (the library tests it with \<^verbatim>\<open>hasattr\<close>). \<open>wfile\<close> holds the bytes
  written to the connection so far.
\<close>

record handler =
  command :: string
  path :: string
  request_version :: string
  headers :: "(string \<times> string) list"
  directory :: string
  headers_buffer :: "string list option"
  wfile :: string
  close_connection :: bool

text \<open>
  \<^verbatim>\<open>BaseHTTPRequestHandler.send_header\<close>:
  \<^verbatim>\<open>
    if self.request_version != 'HTTP/0.9':
        if not hasattr(self, '_headers_buffer'):
            self._headers_buffer = []
        self._headers_buffer.append(
            ("%s: %s\r\n" % (keyword, value)).encode('latin-1', 'strict'))
    if keyword.lower() == 'connection':
        if value.lower() == 'close':
            self.close_connection = True
        elif value.lower() == 'keep-alive':
            self.close_connection = False
  \<close>
\<close>

definition queued :: "handler \<Rightarrow> string list" where
  "queued s = (case headers_buffer s of None \<Rightarrow> [] | Some b \<Rightarrow> b)"

definition header_line :: "string \<Rightarrow> string \<Rightarrow> string" where
  "header_line keyword val = keyword @ '': '' @ val @ CRLF"

definition send_header :: "string \<Rightarrow> string \<Rightarrow> handler \<Rightarrow> handler" where
  "send_header keyword val s =
     (let s1 = (if request_version s \<noteq> ''HTTP/0.9''
                then s\<lparr>headers_buffer := Some (queued s @ [header_line keyword val])\<rparr>
                else s)
      in if lower keyword = ''connection''
         then (if lower val = ''close'' then s1\<lparr>close_connection := True\<rparr>
               else if lower val = ''keep-alive'' then s1\<lparr>close_connection := False\<rparr>
               else s1)
         else s1)"

text \<open>
  \<^verbatim>\<open>BaseHTTPRequestHandler.flush_headers\<close> and \<^verbatim>\<open>BaseHTTPRequestHandler.end_headers\<close>:
  \<^verbatim>\<open>
    def end_headers(self):
        if self.request_version != 'HTTP/0.9':
            self._headers_buffer.append(b"\r\n")
            self.flush_headers()

    def flush_headers(self):
        if hasattr(self, '_headers_buffer'):
            self.wfile.write(b"".join(self._headers_buffer))
            self._headers_buffer = []
  \<close>
  \<^verbatim>\<open>end_headers\<close> reads the attribute without testing for it: on an instance
  that has none it raises \<^verbatim>\<open>AttributeError\<close>.
\<close>

definition flush_headers :: "handler \<Rightarrow> handler" where
  "flush_headers s =
     (case headers_buffer s of
        None \<Rightarrow> s
      | Some b \<Rightarrow> s\<lparr>wfile := wfile s @ concat b, headers_buffer := Some []\<rparr>)"

definition BaseHTTPRequestHandler_end_headers :: "handler \<Rightarrow> exc + handler" where
  "BaseHTTPRequestHandler_end_headers s =
     (if request_version s \<noteq> ''HTTP/0.9''
      then (case headers_buffer s of
              None \<Rightarrow> Inl AttributeError
            | Some b \<Rightarrow> Inr (flush_headers (s\<lparr>headers_buffer := Some (b @ [CRLF])\<rparr>)))
      else Inr s)"

text \<open>
  \<^verbatim>\<open>MyHTTPRequestHandler.end_headers\<close> (test-server.py, lines 12 to 17):
  \<^verbatim>\<open>
    def end_headers(self):
        # Add CORS headers for local testing
        self.send_header('Access-Control-Allow-Origin', '*')
        self.send_header('Access-Control-Allow-Methods', 'GET, POST, OPTIONS')
        self.send_header('Access-Control-Allow-Headers', 'Content-Type')
        super().end_headers()
  \<close>
\<close>

definition MyHTTPRequestHandler_end_headers :: "handler \<Rightarrow> exc + handler" where
  "MyHTTPRequestHandler_end_headers s =
     (let s1 = send_header ''Access-Control-Allow-Origin'' ''*'' s;
          s2 = send_header ''Access-Control-Allow-Methods'' ''GET, POST, OPTIONS'' s1;
          s3 = send_header ''Access-Control-Allow-Headers'' ''Content-Type'' s2
      in BaseHTTPRequestHandler_end_headers s3)"

text \<open>The three header lines, as they stand on the wire.\<close>

definition cors_lines :: "string list" where
  "cors_lines =
     [header_line ''Access-Control-Allow-Origin'' ''*'',
      header_line ''Access-Control-Allow-Methods'' ''GET, POST, OPTIONS'',
      header_line ''Access-Control-Allow-Headers'' ''Content-Type'']"

subsection \<open>Classes and method resolution\<close>

text \<open>
  \<^verbatim>\<open>class MyHTTPRequestHandler(http.server.SimpleHTTPRequestHandler)\<close> has two
  methods of its own; \<^verbatim>\<open>SimpleHTTPRequestHandler(BaseHTTPRequestHandler)\<close> and
  \<^verbatim>\<open>BaseHTTPRequestHandler\<close> hold the rest. Python looks a method up along the method
  resolution order of the instance's class and takes the first class that has the name.
  No attribute of the classes further up (\<^verbatim>\<open>socketserver.StreamRequestHandler\<close>,
  \<^verbatim>\<open>object\<close>) and no instance attribute has a name starting with \<^verbatim>\<open>do_\<close>.
\<close>

datatype cls = BaseHTTPRequestHandler | SimpleHTTPRequestHandler | MyHTTPRequestHandler

fun class_dict :: "cls \<Rightarrow> string list" where
  "class_dict MyHTTPRequestHandler = [''end_headers'', ''do_GET'']"
| "class_dict SimpleHTTPRequestHandler =
     [''__init__'', ''do_GET'', ''do_HEAD'', ''send_head'', ''list_directory'',
      ''translate_path'', ''copyfile'', ''guess_type'']"
| "class_dict BaseHTTPRequestHandler =
     [''parse_request'', ''handle_expect_100'', ''handle_one_request'', ''handle'',
      ''send_error'', ''send_response'', ''send_response_only'', ''send_header'',
      ''end_headers'', ''flush_headers'', ''log_request'', ''log_error'', ''log_message'',
      ''version_string'', ''date_time_string'', ''log_date_time_string'',
      ''address_string'']"

fun mro :: "cls \<Rightarrow> cls list" where
  "mro MyHTTPRequestHandler =
     [MyHTTPRequestHandler, SimpleHTTPRequestHandler, BaseHTTPRequestHandler]"
| "mro SimpleHTTPRequestHandler = [SimpleHTTPRequestHandler, BaseHTTPRequestHandler]"
| "mro BaseHTTPRequestHandler = [BaseHTTPRequestHandler]"

definition lookup :: "cls \<Rightarrow> string \<Rightarrow> cls option" where
  "lookup c name = find (\<lambda>d. name \<in> set (class_dict d)) (mro c)"

text \<open>\<^verbatim>\<open>self.end_headers()\<close>, on an instance of class \<open>c\<close>.\<close>

definition end_headers :: "cls \<Rightarrow> handler \<Rightarrow> exc + handler" where
  "end_headers c s =
     (case lookup c ''end_headers'' of
        Some MyHTTPRequestHandler \<Rightarrow> MyHTTPRequestHandler_end_headers s
      | Some BaseHTTPRequestHandler \<Rightarrow> BaseHTTPRequestHandler_end_headers s
      | _ \<Rightarrow> Inl AttributeError)"

subsection \<open>What the library takes from outside\<close>

text \<open>
  The string functions, tables and clock readings of the library that the model does not
  spell out:
  \<^item> \<open>unquote\<close>: \<^verbatim>\<open>urllib.parse.unquote\<close> (file names are taken as byte strings);
  \<^item> \<open>url_path_endswith_slash p\<close>: \<^verbatim>\<open>urllib.parse.urlsplit(p).path.endswith('/')\<close>;
  \<^item> \<open>redirect_url p\<close>: the URL with \<^verbatim>\<open>/\<close> added to its path that \<^verbatim>\<open>send_head\<close>
    redirects to;
  \<^item> \<open>guess_type\<close>: \<^verbatim>\<open>SimpleHTTPRequestHandler.guess_type\<close>;
  \<^item> \<open>not_modified hs t\<close>: the test of \<^verbatim>\<open>send_head\<close> on the request headers \<open>hs\<close>
    (\<^verbatim>\<open>If-Modified-Since\<close> present, \<^verbatim>\<open>If-None-Match\<close> absent, the date well formed and
    not before the file's modification time \<open>t\<close>);
  \<^item> \<open>version_string\<close>, \<open>date_time_string\<close> (of the current time for \<open>None\<close>);
  \<^item> \<open>responses\<close>: the table of short and long messages by status code;
  \<^item> \<open>error_message code message explain\<close>: \<^verbatim>\<open>error_message_format\<close> filled in and
    encoded;
  \<^item> \<open>py_repr\<close>: \<^verbatim>\<open>repr\<close> of a string; \<open>fs_encoding\<close>: \<^verbatim>\<open>sys.getfilesystemencoding()\<close>.
\<close>

record lib =
  unquote :: "string \<Rightarrow> string"
  url_path_endswith_slash :: "string \<Rightarrow> bool"
  redirect_url :: "string \<Rightarrow> string"
  guess_type :: "string \<Rightarrow> string"
  not_modified :: "(string \<times> string) list \<Rightarrow> nat \<Rightarrow> bool"
  version_string :: string
  date_time_string :: "nat option \<Rightarrow> string"
  responses :: "nat \<Rightarrow> (string \<times> string) option"
  error_message :: "nat \<Rightarrow> string \<Rightarrow> string \<Rightarrow> string"
  py_repr :: "string \<Rightarrow> string"
  fs_encoding :: string

text \<open>
  The state of the process and of the machine around it. \<open>files p\<close> is what
  \<^verbatim>\<open>open(p, 'rb')\<close> reads (\<open>None\<close>: it raises \<^verbatim>\<open>OSError\<close>), \<open>mtime\<close> the
  modification time \<^verbatim>\<open>os.fstat\<close> reports, \<open>isdir\<close> and \<open>isfile\<close> are
  \<^verbatim>\<open>os.path.isdir\<close> and \<^verbatim>\<open>os.path.isfile\<close>, and \<open>list_directory_html p u\<close> is the
  page \<^verbatim>\<open>list_directory\<close> renders for the directory \<open>p\<close> requested as \<open>u\<close>
  (\<open>None\<close>: \<^verbatim>\<open>os.listdir\<close> raises \<^verbatim>\<open>OSError\<close>). \<open>file_abspath\<close> is the value of
  \<^verbatim>\<open>os.path.abspath(__file__)\<close>, \<open>port_free n\<close> says whether binding port \<open>n\<close>
  succeeds, \<open>stdout\<close> holds what was printed, \<open>listening\<close> says whether the
  server socket is open, and \<open>sent\<close> lists the bytes written to each connection handled.
\<close>

record world =
  cwd :: string
  stdout :: string
  files :: "string \<Rightarrow> string option"
  mtime :: "string \<Rightarrow> nat"
  isdir :: "string \<Rightarrow> bool"
  isfile :: "string \<Rightarrow> bool"
  list_directory_html :: "string \<Rightarrow> string \<Rightarrow> string option"
  file_abspath :: string
  port_free :: "nat \<Rightarrow> bool"
  listening :: bool
  sent :: "string list"

subsection \<open>Sending a response (library)\<close>

text \<open>\<^verbatim>\<open>str\<close> of a natural number.\<close>

definition digit_char :: "nat \<Rightarrow> char" where
  "digit_char d = ''0123456789'' ! d"

fun str_nat :: "nat \<Rightarrow> string" where
  "str_nat n = (if n < 10 then [digit_char n] else str_nat (n div 10) @ [digit_char (n mod 10)])"

declare str_nat.simps [simp del]

definition protocol_version :: string where
  "protocol_version = ''HTTP/1.0''"

definition error_content_type :: string where
  "error_content_type = ''text/html;charset=utf-8''"

definition status_line :: "nat \<Rightarrow> string \<Rightarrow> string" where
  "status_line code message =
     protocol_version @ '' '' @ str_nat code @ '' '' @ message @ CRLF"

text \<open>
  \<^verbatim>\<open>send_response_only(code, message=None)\<close>: nothing for an HTTP/0.9 request; otherwise
  the message defaults to the short message of \<^verbatim>\<open>responses\<close> (or the empty string), and
  the status line is appended to the buffer, which is created when absent.
\<close>

definition send_response_only :: "lib \<Rightarrow> nat \<Rightarrow> string option \<Rightarrow> handler \<Rightarrow> handler" where
  "send_response_only L code message s =
     (if request_version s \<noteq> ''HTTP/0.9''
      then (let m = (case message of
                       Some m \<Rightarrow> m
                     | None \<Rightarrow> (case responses L code of Some (short, long) \<Rightarrow> short | None \<Rightarrow> []))
            in s\<lparr>headers_buffer := Some (queued s @ [status_line code m])\<rparr>)
      else s)"

text \<open>
  \<^verbatim>\<open>send_response(code, message=None)\<close>: logs the request on the standard error stream
  (not modelled), then
  \<^verbatim>\<open>
    self.send_response_only(code, message)
    self.send_header('Server', self.version_string())
    self.send_header('Date', self.date_time_string())
  \<close>
\<close>

definition send_response :: "lib \<Rightarrow> nat \<Rightarrow> string option \<Rightarrow> handler \<Rightarrow> handler" where
  "send_response L code message s =
     (let s1 = send_response_only L code message s;
          s2 = send_header ''Server'' (version_string L) s1
      in send_header ''Date'' (date_time_string L None) s2)"

text \<open>
  \<^verbatim>\<open>send_error(code, message=None, explain=None)\<close>:
  \<^verbatim>\<open>
    try:
        shortmsg, longmsg = self.responses[code]
    except KeyError:
        shortmsg, longmsg = '???', '???'
    if message is None: message = shortmsg
    if explain is None: explain = longmsg
    self.log_error("code %d, message %s", code, message)
    self.send_response(code, message)
    self.send_header('Connection', 'close')
    body = None
    if (code >= 200 and
        code not in (HTTPStatus.NO_CONTENT, HTTPStatus.RESET_CONTENT,
                     HTTPStatus.NOT_MODIFIED)):
        content = (self.error_message_format % {...})
        body = content.encode('UTF-8', 'replace')
        self.send_header("Content-Type", self.error_content_type)
        self.send_header('Content-Length', str(len(body)))
    self.end_headers()
    if self.command != 'HEAD' and body:
        self.wfile.write(body)
  \<close>
\<close>

definition send_error ::
  "cls \<Rightarrow> lib \<Rightarrow> nat \<Rightarrow> string option \<Rightarrow> string option \<Rightarrow> handler \<Rightarrow> exc + handler" where
  "send_error c L code message explain s =
     (let (shortmsg, longmsg) =
            (case responses L code of Some sl \<Rightarrow> sl | None \<Rightarrow> (''???'', ''???''));
          m = (case message of None \<Rightarrow> shortmsg | Some m \<Rightarrow> m);
          e = (case explain of None \<Rightarrow> longmsg | Some e \<Rightarrow> e);
          s1 = send_response L code (Some m) s;
          s2 = send_header ''Connection'' ''close'' s1;
          body = (if code \<ge> 200 \<and> code \<notin> {204, 205, 304}
                  then Some (error_message L code m e) else None);
          s3 = (case body of
                  None \<Rightarrow> s2
                | Some b \<Rightarrow> send_header ''Content-Length'' (str_nat (length b))
                             (send_header ''Content-Type'' error_content_type s2))
      in case end_headers c s3 of
           Inl x \<Rightarrow> Inl x
         | Inr s4 \<Rightarrow>
             Inr (case body of
                    None \<Rightarrow> s4
                  | Some b \<Rightarrow> if command s4 \<noteq> ''HEAD'' \<and> b \<noteq> []
                              then s4\<lparr>wfile := wfile s4 @ b\<rparr> else s4))"

subsection \<open>Serving files (library)\<close>

text \<open>\<^verbatim>\<open>posixpath.join\<close> of two components.\<close>

definition join :: "string \<Rightarrow> string \<Rightarrow> string" where
  "join a b =
     (if b \<noteq> [] \<and> hd b = CHR ''/'' then b
      else if a = [] \<or> last a = CHR ''/'' then a @ b
      else a @ ''/'' @ b)"

definition endswith_slash :: "string \<Rightarrow> bool" where
  "endswith_slash p = (p \<noteq> [] \<and> last p = CHR ''/'')"

text \<open>\<^verbatim>\<open>str.split(sep)\<close> for a one-character separator, and \<^verbatim>\<open>str.rstrip()\<close>, which
  strips the characters that \<^verbatim>\<open>str.isspace\<close> accepts.\<close>

fun split :: "char \<Rightarrow> string \<Rightarrow> string list" where
  "split sep [] = [[]]"
| "split sep (x # xs) =
     (if x = sep then [] # split sep xs
      else (case split sep xs of
              [] \<Rightarrow> [[x]]
            | word # ws \<Rightarrow> (x # word) # ws))"

definition isspace :: "char \<Rightarrow> bool" where
  "isspace c =
     (let n = (of_char c :: nat)
      in (9 \<le> n \<and> n \<le> 13) \<or> (28 \<le> n \<and> n \<le> 32) \<or> n = 133 \<or> n = 160)"

definition rstrip :: "string \<Rightarrow> string" where
  "rstrip p = rev (dropWhile isspace (rev p))"

text \<open>
  \<^verbatim>\<open>posixpath.dirname\<close>: the part up to the last slash, without its trailing slashes
  unless it consists of slashes only.
\<close>

definition dirname :: "string \<Rightarrow> string" where
  "dirname p =
     (let head = rev (dropWhile (\<lambda>c. c \<noteq> CHR ''/'') (rev p)) in
      if head \<noteq> [] \<and> \<not> list_all (\<lambda>c. c = CHR ''/'') head
      then rev (dropWhile (\<lambda>c. c = CHR ''/'') (rev head))
      else head)"

text \<open>
  \<^verbatim>\<open>posixpath.normpath\<close>:
  \<^verbatim>\<open>
    if not path:
        return '.'
    initial_slashes = path.startswith('/')
    if (initial_slashes and
        path.startswith('//') and not path.startswith('///')):
        initial_slashes = 2
    comps = path.split('/')
    new_comps = []
    for comp in comps:
        if comp in ('', '.'):
            continue
        if (comp != '..' or (not initial_slashes and not new_comps) or
             (new_comps and new_comps[-1] == '..')):
            new_comps.append(comp)
        elif new_comps:
            new_comps.pop()
    comps = new_comps
    path = '/'.join(comps)
    if initial_slashes:
        path = '/'*initial_slashes + path
    return path or '.'
  \<close>
\<close>

definition startswith :: "string \<Rightarrow> string \<Rightarrow> bool" where
  "startswith p pre = (take (length pre) p = pre)"

fun str_join :: "string \<Rightarrow> string list \<Rightarrow> string" where
  "str_join sep [] = []"
| "str_join sep [x] = x"
| "str_join sep (x # y # zs) = x @ sep @ str_join sep (y # zs)"

definition normpath_comp :: "nat \<Rightarrow> string list \<Rightarrow> string \<Rightarrow> string list" where
  "normpath_comp initial_slashes new_comps part =
     (if part = [] \<or> part = ''.'' then new_comps
      else if part \<noteq> ''..'' \<or> (initial_slashes = 0 \<and> new_comps = []) \<or>
              (new_comps \<noteq> [] \<and> last new_comps = ''..'')
      then new_comps @ [part]
      else if new_comps \<noteq> [] then butlast new_comps
      else new_comps)"

definition normpath :: "string \<Rightarrow> string" where
  "normpath p =
     (if p = [] then ''.''
      else
        (let initial_slashes =
               (if startswith p ''/''
                then (if startswith p ''//'' \<and> \<not> startswith p ''///'' then 2 else 1)
                else 0);
             comps = foldl (normpath_comp initial_slashes) [] (split CHR ''/'' p);
             q = replicate initial_slashes CHR ''/'' @ str_join ''/'' comps
         in if q = [] then ''.'' else q))"

text \<open>
  \<^verbatim>\<open>SimpleHTTPRequestHandler.translate_path\<close>, for a handler whose \<^verbatim>\<open>directory\<close> is
  \<open>d\<close>:
  \<^verbatim>\<open>
    path = path.split('?',1)[0]
    path = path.split('#',1)[0]
    trailing_slash = path.rstrip().endswith('/')
    path = urllib.parse.unquote(path, errors='surrogatepass')
    path = posixpath.normpath(path)
    words = path.split('/')
    words = filter(None, words)
    path = self.directory
    for word in words:
        if os.path.dirname(word) or word in (os.curdir, os.pardir):
            # Ignore components that are not a simple file/directory name
            continue
        path = os.path.join(path, word)
    if trailing_slash:
        path += '/'
    return path
  \<close>
\<close>

definition add_word :: "string \<Rightarrow> string \<Rightarrow> string" where
  "add_word p word =
     (if dirname word \<noteq> [] \<or> word = ''.'' \<or> word = ''..'' then p else join p word)"

definition translate_path :: "lib \<Rightarrow> string \<Rightarrow> string \<Rightarrow> string" where
  "translate_path L d p =
     (let p1 = takeWhile (\<lambda>c. c \<noteq> CHR ''?'') p;
          p2 = takeWhile (\<lambda>c. c \<noteq> CHR ''#'') p1;
          trailing_slash = endswith_slash (rstrip p2);
          p3 = normpath (unquote L p2);
          words = filter (\<lambda>word. word \<noteq> []) (split CHR ''/'' p3);
          local = foldl add_word d words
      in if trailing_slash then local @ ''/'' else local)"

text \<open>
  \<^verbatim>\<open>list_directory(path)\<close>: \<^verbatim>\<open>os.listdir\<close> failing gives the error 404
  \<^verbatim>\<open>No permission to list directory\<close>; otherwise the rendered page is announced with
  status 200 and returned as the file object to copy.
\<close>

definition list_directory ::
  "cls \<Rightarrow> lib \<Rightarrow> world \<Rightarrow> handler \<Rightarrow> string \<Rightarrow> exc + (handler \<times> string option)" where
  "list_directory c L w s p =
     (case list_directory_html w p (path s) of
        None \<Rightarrow>
          (case send_error c L 404 (Some ''No permission to list directory'') None s of
             Inl x \<Rightarrow> Inl x
           | Inr s1 \<Rightarrow> Inr (s1, None))
      | Some encoded \<Rightarrow>
          (let s1 = send_response L 200 None s;
               s2 = send_header ''Content-type'' (''text/html; charset='' @ fs_encoding L) s1;
               s3 = send_header ''Content-Length'' (str_nat (length encoded)) s2
           in case end_headers c s3 of
                Inl x \<Rightarrow> Inl x
              | Inr s4 \<Rightarrow> Inr (s4, Some encoded)))"

text \<open>
  The part of \<^verbatim>\<open>send_head\<close> that serves the file \<open>p\<close>, from
  \<^verbatim>\<open>ctype = self.guess_type(path)\<close> to its end:
  \<^verbatim>\<open>
    if path.endswith("/"):
        self.send_error(HTTPStatus.NOT_FOUND, "File not found")
        return None
    try:
        f = open(path, 'rb')
    except OSError:
        self.send_error(HTTPStatus.NOT_FOUND, "File not found")
        return None
    ... (If-Modified-Since)
            self.send_response(HTTPStatus.NOT_MODIFIED)
            self.end_headers()
            f.close()
            return None
    self.send_response(HTTPStatus.OK)
    self.send_header("Content-type", ctype)
    self.send_header("Content-Length", str(fs[6]))
    self.send_header("Last-Modified", self.date_time_string(fs.st_mtime))
    self.end_headers()
    return f
  \<close>
\<close>

definition send_head_file ::
  "cls \<Rightarrow> lib \<Rightarrow> world \<Rightarrow> handler \<Rightarrow> string \<Rightarrow> exc + (handler \<times> string option)" where
  "send_head_file c L w s p =
     (let ctype = guess_type L p in
      if endswith_slash p
      then (case send_error c L 404 (Some ''File not found'') None s of
              Inl x \<Rightarrow> Inl x
            | Inr s1 \<Rightarrow> Inr (s1, None))
      else
        (case files w p of
           None \<Rightarrow>
             (case send_error c L 404 (Some ''File not found'') None s of
                Inl x \<Rightarrow> Inl x
              | Inr s1 \<Rightarrow> Inr (s1, None))
         | Some f \<Rightarrow>
             if not_modified L (headers s) (mtime w p)
             then (case end_headers c (send_response L 304 None s) of
                     Inl x \<Rightarrow> Inl x
                   | Inr s1 \<Rightarrow> Inr (s1, None))
             else
               (let s1 = send_response L 200 None s;
                    s2 = send_header ''Content-type'' ctype s1;
                    s3 = send_header ''Content-Length'' (str_nat (length f)) s2;
                    s4 = send_header ''Last-Modified'' (date_time_string L (Some (mtime w p))) s3
                in case end_headers c s4 of
                     Inl x \<Rightarrow> Inl x
                   | Inr s5 \<Rightarrow> Inr (s5, Some f))))"

text \<open>
  \<^verbatim>\<open>send_head\<close>:
  \<^verbatim>\<open>
    path = self.translate_path(self.path)
    f = None
    if os.path.isdir(path):
        parts = urllib.parse.urlsplit(self.path)
        if not parts.path.endswith('/'):
            self.send_response(HTTPStatus.MOVED_PERMANENTLY)
            ...
            self.send_header("Location", new_url)
            self.send_header("Content-Length", "0")
            self.end_headers()
            return None
        for index in "index.html", "index.htm":
            index = os.path.join(path, index)
            if os.path.isfile(index):
                path = index
                break
        else:
            return self.list_directory(path)
    ctype = self.guess_type(path)
    ...
  \<close>
\<close>

definition send_head ::
  "cls \<Rightarrow> lib \<Rightarrow> world \<Rightarrow> handler \<Rightarrow> exc + (handler \<times> string option)" where
  "send_head c L w s =
     (let p = translate_path L (directory s) (path s) in
      if isdir w p
      then (if \<not> url_path_endswith_slash L (path s)
            then (let s1 = send_response L 301 None s;
                      s2 = send_header ''Location'' (redirect_url L (path s)) s1;
                      s3 = send_header ''Content-Length'' ''0'' s2
                  in case end_headers c s3 of
                       Inl x \<Rightarrow> Inl x
                     | Inr s4 \<Rightarrow> Inr (s4, None))
            else if isfile w (join p ''index.html'')
            then send_head_file c L w s (join p ''index.html'')
            else if isfile w (join p ''index.htm'')
            then send_head_file c L w s (join p ''index.htm'')
            else list_directory c L w s p)
      else send_head_file c L w s p)"

text \<open>
  \<^verbatim>\<open>SimpleHTTPRequestHandler.do_GET\<close> copies the file object that \<^verbatim>\<open>send_head\<close>
  returns to the connection; \<^verbatim>\<open>SimpleHTTPRequestHandler.do_HEAD\<close> only closes it.
\<close>

definition SimpleHTTPRequestHandler_do_GET ::
  "cls \<Rightarrow> lib \<Rightarrow> world \<Rightarrow> handler \<Rightarrow> exc + handler" where
  "SimpleHTTPRequestHandler_do_GET c L w s =
     (case send_head c L w s of
        Inl x \<Rightarrow> Inl x
      | Inr (s1, None) \<Rightarrow> Inr s1
      | Inr (s1, Some f) \<Rightarrow> Inr (s1\<lparr>wfile := wfile s1 @ f\<rparr>))"

definition SimpleHTTPRequestHandler_do_HEAD ::
  "cls \<Rightarrow> lib \<Rightarrow> world \<Rightarrow> handler \<Rightarrow> exc + handler" where
  "SimpleHTTPRequestHandler_do_HEAD c L w s =
     (case send_head c L w s of
        Inl x \<Rightarrow> Inl x
      | Inr (s1, f) \<Rightarrow> Inr s1)"

subsection \<open>The overriding GET handler and the dispatch\<close>

text \<open>
  \<^verbatim>\<open>MyHTTPRequestHandler.do_GET\<close> (test-server.py, lines 19 to 23):
  \<^verbatim>\<open>
    def do_GET(self):
        # Serve files from demo directory
        if self.path == '/':
            self.path = '/index.html'
        return super().do_GET()
  \<close>
  \<open>rewrite_root\<close> is the \<^verbatim>\<open>if\<close> statement. \<^verbatim>\<open>self\<close> is an instance of
  \<^verbatim>\<open>MyHTTPRequestHandler\<close>, the only class below \<^verbatim>\<open>SimpleHTTPRequestHandler\<close>.
\<close>

definition rewrite_root :: "handler \<Rightarrow> handler" where
  "rewrite_root s = (if path s = ''/'' then s\<lparr>path := ''/index.html''\<rparr> else s)"

definition MyHTTPRequestHandler_do_GET :: "lib \<Rightarrow> world \<Rightarrow> handler \<Rightarrow> exc + handler" where
  "MyHTTPRequestHandler_do_GET L w s =
     SimpleHTTPRequestHandler_do_GET MyHTTPRequestHandler L w (rewrite_root s)"

text \<open>
  The end of \<^verbatim>\<open>handle_one_request\<close>, once \<^verbatim>\<open>parse_request\<close> has filled in
  \<^verbatim>\<open>command\<close>, \<^verbatim>\<open>path\<close>, \<^verbatim>\<open>request_version\<close> and \<^verbatim>\<open>headers\<close>:
  \<^verbatim>\<open>
    mname = 'do_' + self.command
    if not hasattr(self, mname):
        self.send_error(
            HTTPStatus.NOT_IMPLEMENTED,
            "Unsupported method (%r)" % self.command)
        return
    method = getattr(self, mname)
    method()
  \<close>
\<close>

definition handle_one_request :: "cls \<Rightarrow> lib \<Rightarrow> world \<Rightarrow> handler \<Rightarrow> exc + handler" where
  "handle_one_request c L w s =
     (let mname = ''do_'' @ command s in
      case lookup c mname of
        None \<Rightarrow>
          send_error c L 501
            (Some (''Unsupported method ('' @ py_repr L (command s) @ '')'')) None s
      | Some d \<Rightarrow>
          if d = MyHTTPRequestHandler \<and> mname = ''do_GET''
          then MyHTTPRequestHandler_do_GET L w s
          else if d = SimpleHTTPRequestHandler \<and> mname = ''do_GET''
          then SimpleHTTPRequestHandler_do_GET c L w s
          else if d = SimpleHTTPRequestHandler \<and> mname = ''do_HEAD''
          then SimpleHTTPRequestHandler_do_HEAD c L w s
          else Inl AttributeError)"

subsection \<open>The script: start-up, serving, shutdown\<close>

text \<open>
  \<^verbatim>\<open>
    PORT = 8000
    ...
    os.chdir(os.path.dirname(os.path.abspath(__file__)))

    print(f"Starting server at http://localhost:{PORT}")
    print("Press Ctrl+C to stop")

    with socketserver.TCPServer(("", PORT), MyHTTPRequestHandler) as httpd:
        try:
            httpd.serve_forever()
        except KeyboardInterrupt:
            print("\nServer stopped.")
            sys.exit(0)
  \<close>
\<close>

definition PORT :: nat where
  "PORT = 8000"

text \<open>\<^verbatim>\<open>print(x)\<close> writes \<open>x\<close> and a newline to the standard output.\<close>

definition print :: "string \<Rightarrow> world \<Rightarrow> world" where
  "print x w = w\<lparr>stdout := stdout w @ x @ [CHR 0x0A]\<rparr>"

text \<open>\<^verbatim>\<open>os.chdir\<close> raises \<^verbatim>\<open>OSError\<close> unless its argument is a directory.\<close>

definition chdir :: "string \<Rightarrow> world \<Rightarrow> exc + world" where
  "chdir d w = (if isdir w d then Inr (w\<lparr>cwd := d\<rparr>) else Inl OSError)"

text \<open>
  \<^verbatim>\<open>socketserver.TCPServer(("", PORT), ...)\<close> binds the port and listens; when binding
  fails it closes the socket and lets the \<^verbatim>\<open>OSError\<close> through. Leaving the
  \<^verbatim>\<open>with\<close> block calls \<^verbatim>\<open>server_close\<close>.
\<close>

definition TCPServer_init :: "nat \<Rightarrow> world \<Rightarrow> exc + world" where
  "TCPServer_init port w = (if port_free w port then Inr (w\<lparr>listening := True\<rparr>) else Inl OSError)"

definition server_close :: "world \<Rightarrow> world" where
  "server_close w = w\<lparr>listening := False\<rparr>"

text \<open>
  A request as \<^verbatim>\<open>parse_request\<close> leaves it in the handler, and what reaches the
  serving loop: a connection carrying a request, or the interrupt signal, which Python
  raises as \<^verbatim>\<open>KeyboardInterrupt\<close>.
\<close>

record request =
  req_command :: string
  req_path :: string
  req_version :: string
  req_headers :: "(string \<times> string) list"

datatype event = Connection request | Interrupt

text \<open>
  The server makes one handler instance per connection;
  \<^verbatim>\<open>SimpleHTTPRequestHandler.__init__\<close> sets \<^verbatim>\<open>self.directory = os.getcwd()\<close>, and
  \<^verbatim>\<open>handle\<close> starts with \<^verbatim>\<open>close_connection = True\<close>.
\<close>

definition new_handler :: "world \<Rightarrow> request \<Rightarrow> handler" where
  "new_handler w r =
     \<lparr>command = req_command r, path = req_path r, request_version = req_version r,
      headers = req_headers r, directory = cwd w, headers_buffer = None, wfile = [],
      close_connection = True\<rparr>"

text \<open>
  \<^verbatim>\<open>finish_request\<close> runs the handler. \<^verbatim>\<open>socketserver\<close> catches an
  \<^verbatim>\<open>Exception\<close> that leaves the handler (\<^verbatim>\<open>handle_error\<close>), shuts the connection
  down and goes on serving.
\<close>

definition finish_request :: "lib \<Rightarrow> world \<Rightarrow> request \<Rightarrow> world" where
  "finish_request L w r =
     (case handle_one_request MyHTTPRequestHandler L w (new_handler w r) of
        Inr s \<Rightarrow> w\<lparr>sent := sent w @ [wfile s]\<rparr>
      | Inl x \<Rightarrow> w\<lparr>sent := sent w @ [[]]\<rparr>)"

text \<open>
  \<^verbatim>\<open>serve_forever\<close> over the events that arrive: it returns the world and the
  exception that ended it, or \<open>None\<close> while it is still waiting for the next event.
  The interrupt is taken between two connections; one that arrives while a request is
  being handled leaves the loop by the same way, through \<^verbatim>\<open>shutdown_request\<close>.
\<close>

fun serve_forever :: "lib \<Rightarrow> world \<Rightarrow> event list \<Rightarrow> world \<times> exc option" where
  "serve_forever L w [] = (w, None)"
| "serve_forever L w (Interrupt # evs) = (w, Some KeyboardInterrupt)"
| "serve_forever L w (Connection r # evs) = serve_forever L (finish_request L w r) evs"

text \<open>
  How a run of the script stands after the events: exited with a status
  (\<^verbatim>\<open>sys.exit\<close>), ended by an exception nobody caught, or still serving.
\<close>

datatype outcome = Exit int world | Traceback exc world | Serving world

definition test_server :: "lib \<Rightarrow> world \<Rightarrow> event list \<Rightarrow> outcome" where
  "test_server L w evs =
     (case chdir (dirname (file_abspath w)) w of
        Inl x \<Rightarrow> Traceback x w
      | Inr w1 \<Rightarrow>
          (let w2 = print (''Starting server at http://localhost:'' @ str_nat PORT) w1;
               w3 = print ''Press Ctrl+C to stop'' w2
           in case TCPServer_init PORT w3 of
                Inl x \<Rightarrow> Traceback x w3
              | Inr w4 \<Rightarrow>
                  (case serve_forever L w4 evs of
                     (w5, None) \<Rightarrow> Serving w5
                   | (w5, Some KeyboardInterrupt) \<Rightarrow>
                       Exit 0 (server_close (print (CHR 0x0A # ''Server stopped.'') w5))
                   | (w5, Some x) \<Rightarrow> Traceback x (server_close w5))))"

subsection \<open>Notions used in the statements and proofs\<close>




text \<open>The file-system part of the world.\<close>

definition same_files :: "world \<Rightarrow> world \<Rightarrow> bool" where
  "same_files w w' =
     (files w' = files w \<and> mtime w' = mtime w \<and> isdir w' = isdir w \<and>
      isfile w' = isfile w \<and> list_directory_html w' = list_directory_html w)"




subsection \<open>A demo directory to run the model on\<close>

text \<open>
  The script lies in \<^verbatim>\<open>/srv/demo\<close> beside one page, \<^verbatim>\<open>index.html\<close>, whose
  content is \<^verbatim>\<open>hi\<close>; there is an empty subdirectory \<^verbatim>\<open>/srv/demo/img\<close>.
\<close>

definition demo_lib :: lib where
  "demo_lib =
     \<lparr>unquote = (\<lambda>p. p),
      url_path_endswith_slash = endswith_slash,
      redirect_url = (\<lambda>p. p @ ''/''),
      guess_type = (\<lambda>p. ''text/html''),
      not_modified = (\<lambda>hs t. False),
      version_string = ''SimpleHTTP/0.6 Python/3.11.10'',
      date_time_string = (\<lambda>t. ''Thu, 01 Jan 1970 00:00:00 GMT''),
      responses = (\<lambda>code. if code = 200 then Some (''OK'', ''Request fulfilled, document follows'')
                   else if code = 301
                   then Some (''Moved Permanently'', ''Object moved permanently'')
                   else if code = 404 then Some (''Not Found'', ''Nothing matches the given URI'')
                   else if code = 501
                   then Some (''Not Implemented'', ''Server does not support this operation'')
                   else None),
      error_message = (\<lambda>code message explain. ''Error: '' @ message),
      py_repr = (\<lambda>x. [CHR 0x27] @ x @ [CHR 0x27]),
      fs_encoding = ''utf-8''\<rparr>"

definition demo_world :: world where
  "demo_world =
     \<lparr>cwd = ''/srv/demo'',
      stdout = [],
      files = (\<lambda>p. if p = ''/srv/demo/index.html'' then Some ''hi'' else None),
      mtime = (\<lambda>p. 0),
      isdir = (\<lambda>p. p \<in> {''/srv/demo'', ''/srv/demo/'', ''/srv/demo/img'', ''/srv/demo/img/'', ''/tmp''}),
      isfile = (\<lambda>p. p = ''/srv/demo/index.html''),
      list_directory_html = (\<lambda>p u. if p = ''/srv/demo/img/'' then Some ''<ul></ul>'' else None),
      file_abspath = ''/srv/demo/test-server.py'',
      port_free = (\<lambda>n. True),
      listening = False,
      sent = []\<rparr>"

definition demo_request :: "string \<Rightarrow> string \<Rightarrow> string \<Rightarrow> request" where
  "demo_request method target version =
     \<lparr>req_command = method, req_path = target, req_version = version, req_headers = []\<rparr>"

section \<open>Properties\<close>

subsection \<open>Method resolution\<close>



subsection \<open>Path translation\<close>








subsection \<open>Queueing header lines\<close>

lemma lower_cors_keys:
  "lower ''Access-Control-Allow-Origin'' \<noteq> ''connection''"
  "lower ''Access-Control-Allow-Methods'' \<noteq> ''connection''"
  "lower ''Access-Control-Allow-Headers'' \<noteq> ''connection''"
  by (simp_all add: lower_def lower_char_def)

lemma queued_simps:
  "queued (s\<lparr>headers_buffer := Some b\<rparr>) = b"
  "queued (s\<lparr>wfile := x\<rparr>) = queued s"
  "queued (s\<lparr>close_connection := y\<rparr>) = queued s"
  "queued (s\<lparr>path := z\<rparr>) = queued s"
  by (simp_all add: queued_def)












subsection \<open>The overriding \<open>end_headers\<close>\<close>

lemma My_end_headers_sends:
  assumes v: "request_version s \<noteq> ''HTTP/0.9''"
  shows "MyHTTPRequestHandler_end_headers s =
           Inr (s\<lparr>headers_buffer := Some [],
                  wfile := wfile s @ concat (queued s) @ concat cors_lines @ CRLF\<rparr>)"
proof -
  let ?s1 = "send_header ''Access-Control-Allow-Origin'' ''*'' s"
  let ?s2 = "send_header ''Access-Control-Allow-Methods'' ''GET, POST, OPTIONS'' ?s1"
  let ?s3 = "send_header ''Access-Control-Allow-Headers'' ''Content-Type'' ?s2"
  have s1: "?s1 = s\<lparr>headers_buffer := Some (queued s @ [cors_lines ! 0])\<rparr>"
    using v by (simp add: send_header_def lower_cors_keys cors_lines_def)
  have s2: "?s2 = s\<lparr>headers_buffer := Some (queued s @ [cors_lines ! 0, cors_lines ! 1])\<rparr>"
    using v by (simp add: s1 send_header_def lower_cors_keys cors_lines_def queued_simps)
  have s3: "?s3 = s\<lparr>headers_buffer := Some (queued s @ cors_lines)\<rparr>"
    using v by (simp add: s2 send_header_def lower_cors_keys cors_lines_def queued_simps)
  show ?thesis
    unfolding MyHTTPRequestHandler_end_headers_def Let_def s3
    using v by (simp add: BaseHTTPRequestHandler_end_headers_def flush_headers_def)
qed

text \<open>The same, for the HTTP/0.9 request: the method leaves the handler as it was.\<close>

lemma My_end_headers_09:
  assumes "request_version s = ''HTTP/0.9''"
  shows "MyHTTPRequestHandler_end_headers s = Inr s"
  using assms
  by (simp add: MyHTTPRequestHandler_end_headers_def send_header_def lower_cors_keys
      BaseHTTPRequestHandler_end_headers_def)

text \<open>
  Claim C10. The overriding \<^verbatim>\<open>end_headers\<close> writes every line queued so far, in
  order and unchanged, then the three CORS lines, then the blank line, and leaves the
  buffer empty. Nothing queued is dropped or replaced: a queued line that carries one of
  the three names stands in the block beside the added one. (For an HTTP/0.9 request the
  library queues and sends no header at all, and the method changes nothing.)
\<close>

theorem cors_lines_follow_queued_lines:
  "MyHTTPRequestHandler_end_headers s =
     Inr (if request_version s = ''HTTP/0.9'' then s
          else s\<lparr>headers_buffer := Some [],
                 wfile := wfile s @ concat (queued s) @ concat cors_lines @ CRLF\<rparr>)"
  using My_end_headers_sends [of s] My_end_headers_09 [of s]
  by (cases "request_version s = ''HTTP/0.9''") simp_all

theorem cors_lines_follow_queued_lines_witness:
  "request_version (new_handler demo_world (demo_request ''GET'' ''/'' ''HTTP/1.1'')) \<noteq> ''HTTP/0.9''
   \<and> MyHTTPRequestHandler_end_headers
       ((new_handler demo_world (demo_request ''GET'' ''/'' ''HTTP/1.1''))
          \<lparr>headers_buffer :=
             Some [status_line 200 ''OK'',
                   header_line ''Access-Control-Allow-Origin'' ''http://localhost'']\<rparr>) =
     Inr ((new_handler demo_world (demo_request ''GET'' ''/'' ''HTTP/1.1''))
          \<lparr>headers_buffer := Some [],
            wfile := concat
              [status_line 200 ''OK'',
               header_line ''Access-Control-Allow-Origin'' ''http://localhost'',
               header_line ''Access-Control-Allow-Origin'' ''*'',
               header_line ''Access-Control-Allow-Methods'' ''GET, POST, OPTIONS'',
               header_line ''Access-Control-Allow-Headers'' ''Content-Type'',
               CRLF]\<rparr>)"
  using cors_lines_follow_queued_lines
    [of "(new_handler demo_world (demo_request ''GET'' ''/'' ''HTTP/1.1''))
          \<lparr>headers_buffer :=
             Some [status_line 200 ''OK'',
                   header_line ''Access-Control-Allow-Origin'' ''http://localhost'']\<rparr>"]
  by (simp add: new_handler_def demo_request_def queued_def cors_lines_def)




subsection \<open>Every response carries the CORS lines\<close>




















subsection \<open>The overriding \<open>do_GET\<close>\<close>

text \<open>
  Claim C2. A GET for the path \<^verbatim>\<open>/\<close> reaches the file-serving handler of the library
  with the path \<^verbatim>\<open>/index.html\<close>, so nothing is looked up under \<^verbatim>\<open>/\<close>; it ends
  in the same handler state as a GET for \<^verbatim>\<open>/index.html\<close>; and the server sends the
  same bytes (status line, headers and body) for the two requests.
\<close>

theorem root_is_served_as_index:
  "MyHTTPRequestHandler_do_GET L w (s\<lparr>path := ''/''\<rparr>) =
     SimpleHTTPRequestHandler_do_GET MyHTTPRequestHandler L w (s\<lparr>path := ''/index.html''\<rparr>)
   \<and> MyHTTPRequestHandler_do_GET L w (s\<lparr>path := ''/''\<rparr>) =
     MyHTTPRequestHandler_do_GET L w (s\<lparr>path := ''/index.html''\<rparr>)
   \<and> (req_command r = ''GET'' \<longrightarrow>
        finish_request L w (r\<lparr>req_path := ''/''\<rparr>) =
        finish_request L w (r\<lparr>req_path := ''/index.html''\<rparr>))"
proof -
  have 1: "MyHTTPRequestHandler_do_GET L w (s\<lparr>path := ''/''\<rparr>) =
     SimpleHTTPRequestHandler_do_GET MyHTTPRequestHandler L w (s\<lparr>path := ''/index.html''\<rparr>)"
    for s
    by (simp add: MyHTTPRequestHandler_do_GET_def rewrite_root_def)
  have 2: "MyHTTPRequestHandler_do_GET L w (s\<lparr>path := ''/''\<rparr>) =
     MyHTTPRequestHandler_do_GET L w (s\<lparr>path := ''/index.html''\<rparr>)" for s
    by (simp add: MyHTTPRequestHandler_do_GET_def rewrite_root_def)
  have 3: "finish_request L w (r\<lparr>req_path := ''/''\<rparr>) =
        finish_request L w (r\<lparr>req_path := ''/index.html''\<rparr>)" if g: "req_command r = ''GET''"
  proof -
    have n: "new_handler w (r\<lparr>req_path := p\<rparr>) = (new_handler w r)\<lparr>path := p\<rparr>" for p
      by (simp add: new_handler_def)
    have h: "handle_one_request MyHTTPRequestHandler L w ((new_handler w r)\<lparr>path := p\<rparr>) =
        MyHTTPRequestHandler_do_GET L w ((new_handler w r)\<lparr>path := p\<rparr>)" for p
      using g by (simp add: handle_one_request_def Let_def lookup_def new_handler_def)
    show ?thesis
      unfolding finish_request_def n h 2 ..
  qed
  from 1 2 3 show ?thesis by blast
qed

theorem root_is_served_as_index_witness:
  "req_command (demo_request ''GET'' ''/nowhere'' ''HTTP/1.1'') = ''GET'' \<and>
   finish_request demo_lib demo_world
     ((demo_request ''GET'' ''/nowhere'' ''HTTP/1.1'')\<lparr>req_path := ''/''\<rparr>) =
   finish_request demo_lib demo_world
     ((demo_request ''GET'' ''/nowhere'' ''HTTP/1.1'')\<lparr>req_path := ''/index.html''\<rparr>) \<and>
   sent (finish_request demo_lib demo_world
     ((demo_request ''GET'' ''/nowhere'' ''HTTP/1.1'')\<lparr>req_path := ''/''\<rparr>)) =
     [concat
        [status_line 200 ''OK'',
         header_line ''Server'' ''SimpleHTTP/0.6 Python/3.11.10'',
         header_line ''Date'' ''Thu, 01 Jan 1970 00:00:00 GMT'',
         header_line ''Content-type'' ''text/html'',
         header_line ''Content-Length'' ''2'',
         header_line ''Last-Modified'' ''Thu, 01 Jan 1970 00:00:00 GMT'',
         header_line ''Access-Control-Allow-Origin'' ''*'',
         header_line ''Access-Control-Allow-Methods'' ''GET, POST, OPTIONS'',
         header_line ''Access-Control-Allow-Headers'' ''Content-Type'',
         CRLF,
         ''hi'']]"
proof -
  let ?r = "demo_request ''GET'' ''/nowhere'' ''HTTP/1.1''"
  have g: "req_command ?r = ''GET''"
    by (simp add: demo_request_def)
  have e: "sent (finish_request demo_lib demo_world (?r\<lparr>req_path := ''/index.html''\<rparr>)) =
     [concat
        [status_line 200 ''OK'',
         header_line ''Server'' ''SimpleHTTP/0.6 Python/3.11.10'',
         header_line ''Date'' ''Thu, 01 Jan 1970 00:00:00 GMT'',
         header_line ''Content-type'' ''text/html'',
         header_line ''Content-Length'' ''2'',
         header_line ''Last-Modified'' ''Thu, 01 Jan 1970 00:00:00 GMT'',
         header_line ''Access-Control-Allow-Origin'' ''*'',
         header_line ''Access-Control-Allow-Methods'' ''GET, POST, OPTIONS'',
         header_line ''Access-Control-Allow-Headers'' ''Content-Type'',
         CRLF,
         ''hi'']]"
    by code_simp
  from root_is_served_as_index [of demo_lib demo_world "new_handler demo_world ?r" ?r] g
  have "finish_request demo_lib demo_world (?r\<lparr>req_path := ''/''\<rparr>) =
      finish_request demo_lib demo_world (?r\<lparr>req_path := ''/index.html''\<rparr>)"
    by blast
  with g e show ?thesis
    by simp
qed



text \<open>
  Claim C8. The rewrite changes the handler exactly when the path is the one-character
  string \<^verbatim>\<open>/\<close>. The paths \<^verbatim>\<open>/?query=1\<close>, \<^verbatim>\<open>//\<close> and \<^verbatim>\<open>/.\<close> reach the
  file-serving handler of the library as they are.
\<close>

theorem rewrite_only_for_the_exact_root:
  "(rewrite_root s \<noteq> s \<longleftrightarrow> path s = ''/'')
   \<and> (path (rewrite_root s) = ''/index.html'' \<longleftrightarrow> path s = ''/'' \<or> path s = ''/index.html'')
   \<and> MyHTTPRequestHandler_do_GET L w (s\<lparr>path := ''/?query=1''\<rparr>) =
       SimpleHTTPRequestHandler_do_GET MyHTTPRequestHandler L w (s\<lparr>path := ''/?query=1''\<rparr>)
   \<and> MyHTTPRequestHandler_do_GET L w (s\<lparr>path := ''//''\<rparr>) =
       SimpleHTTPRequestHandler_do_GET MyHTTPRequestHandler L w (s\<lparr>path := ''//''\<rparr>)
   \<and> MyHTTPRequestHandler_do_GET L w (s\<lparr>path := ''/.''\<rparr>) =
       SimpleHTTPRequestHandler_do_GET MyHTTPRequestHandler L w (s\<lparr>path := ''/.''\<rparr>)"
proof -
  have "rewrite_root s \<noteq> s \<longleftrightarrow> path s = ''/''"
  proof
    assume "rewrite_root s \<noteq> s"
    then show "path s = ''/''" by (auto simp add: rewrite_root_def split: if_splits)
  next
    assume p: "path s = ''/''"
    then have "path (rewrite_root s) = ''/index.html''" by (simp add: rewrite_root_def)
    with p show "rewrite_root s \<noteq> s" by auto
  qed
  moreover have "path (rewrite_root s) = ''/index.html'' \<longleftrightarrow>
      path s = ''/'' \<or> path s = ''/index.html''"
    by (simp add: rewrite_root_def)
  ultimately show ?thesis
    by (simp add: MyHTTPRequestHandler_do_GET_def rewrite_root_def)
qed

subsection \<open>Which methods the handler answers\<close>

text \<open>
  Claim C6. Among the methods \<^verbatim>\<open>do_<command>\<close> that a request can reach, the class of
  the script has one of its own, \<^verbatim>\<open>do_GET\<close>. Every other command resolves as it does
  for \<^verbatim>\<open>SimpleHTTPRequestHandler\<close>: HEAD to the library's \<^verbatim>\<open>do_HEAD\<close>, anything
  else to no method, which the library answers with the error 501.
\<close>

theorem only_GET_is_overridden:
  "(lookup MyHTTPRequestHandler (''do_'' @ c) = Some MyHTTPRequestHandler \<longleftrightarrow> c = ''GET'')
   \<and> (c \<noteq> ''GET'' \<longrightarrow>
        lookup MyHTTPRequestHandler (''do_'' @ c) = lookup SimpleHTTPRequestHandler (''do_'' @ c))
   \<and> lookup SimpleHTTPRequestHandler ''do_GET'' = Some SimpleHTTPRequestHandler
   \<and> lookup MyHTTPRequestHandler ''do_HEAD'' = Some SimpleHTTPRequestHandler
   \<and> (command s = ''GET'' \<longrightarrow>
        handle_one_request MyHTTPRequestHandler L w s = MyHTTPRequestHandler_do_GET L w s)
   \<and> (command s = ''HEAD'' \<longrightarrow>
        handle_one_request MyHTTPRequestHandler L w s =
          SimpleHTTPRequestHandler_do_HEAD MyHTTPRequestHandler L w s)
   \<and> (command s \<noteq> ''GET'' \<and> command s \<noteq> ''HEAD'' \<longrightarrow>
        lookup MyHTTPRequestHandler (''do_'' @ command s) = None \<and>
        handle_one_request MyHTTPRequestHandler L w s =
          send_error MyHTTPRequestHandler L 501
            (Some (''Unsupported method ('' @ py_repr L (command s) @ '')'')) None s)"
proof -
  have 1: "lookup MyHTTPRequestHandler (''do_'' @ c) = Some MyHTTPRequestHandler \<longleftrightarrow> c = ''GET''"
    by (simp add: lookup_def)
  have 2: "c \<noteq> ''GET'' \<longrightarrow>
        lookup MyHTTPRequestHandler (''do_'' @ c) = lookup SimpleHTTPRequestHandler (''do_'' @ c)"
    by (simp add: lookup_def)
  have 3: "lookup SimpleHTTPRequestHandler ''do_GET'' = Some SimpleHTTPRequestHandler"
    by (simp add: lookup_def)
  have 4: "lookup MyHTTPRequestHandler ''do_HEAD'' = Some SimpleHTTPRequestHandler"
    by (simp add: lookup_def)
  have 5: "command s = ''GET'' \<longrightarrow>
        handle_one_request MyHTTPRequestHandler L w s = MyHTTPRequestHandler_do_GET L w s"
    by (simp add: handle_one_request_def Let_def lookup_def)
  have 6: "command s = ''HEAD'' \<longrightarrow>
        handle_one_request MyHTTPRequestHandler L w s =
          SimpleHTTPRequestHandler_do_HEAD MyHTTPRequestHandler L w s"
    by (simp add: handle_one_request_def Let_def lookup_def)
  have 7: "command s \<noteq> ''GET'' \<and> command s \<noteq> ''HEAD'' \<longrightarrow>
        lookup MyHTTPRequestHandler (''do_'' @ command s) = None \<and>
        handle_one_request MyHTTPRequestHandler L w s =
          send_error MyHTTPRequestHandler L 501
            (Some (''Unsupported method ('' @ py_repr L (command s) @ '')'')) None s"
    by (simp add: handle_one_request_def Let_def lookup_def)
  from 1 2 3 4 5 6 7 show ?thesis by blast
qed

theorem only_GET_is_overridden_witness:
  "lookup MyHTTPRequestHandler ''do_POST'' = None
   \<and> lookup SimpleHTTPRequestHandler ''do_POST'' = None
   \<and> handle_one_request MyHTTPRequestHandler demo_lib demo_world
       (new_handler demo_world (demo_request ''POST'' ''/index.html'' ''HTTP/1.1'')) =
     send_error MyHTTPRequestHandler demo_lib 501
       (Some (''Unsupported method ('' @ [CHR 0x27] @ ''POST'' @ [CHR 0x27] @ '')'')) None
       (new_handler demo_world (demo_request ''POST'' ''/index.html'' ''HTTP/1.1''))
   \<and> handle_one_request MyHTTPRequestHandler demo_lib demo_world
       (new_handler demo_world (demo_request ''HEAD'' ''/index.html'' ''HTTP/1.1'')) =
     SimpleHTTPRequestHandler_do_HEAD MyHTTPRequestHandler demo_lib demo_world
       (new_handler demo_world (demo_request ''HEAD'' ''/index.html'' ''HTTP/1.1''))"
proof -
  let ?p = "new_handler demo_world (demo_request ''POST'' ''/index.html'' ''HTTP/1.1'')"
  let ?h = "new_handler demo_world (demo_request ''HEAD'' ''/index.html'' ''HTTP/1.1'')"
  have cp: "command ?p = ''POST''" and ch: "command ?h = ''HEAD''"
    by (simp_all add: new_handler_def demo_request_def)
  have r: "py_repr demo_lib ''POST'' = [CHR 0x27] @ ''POST'' @ [CHR 0x27]"
    by (simp add: demo_lib_def)
  have n: "''POST'' \<noteq> ''GET''" "''POST'' \<noteq> ''HEAD''"
    by simp_all
  from only_GET_is_overridden [of "''POST''" ?p demo_lib demo_world] n
  have 1: "lookup MyHTTPRequestHandler (''do_'' @ ''POST'') = lookup SimpleHTTPRequestHandler (''do_'' @ ''POST'')"
    and 2: "lookup MyHTTPRequestHandler (''do_'' @ command ?p) = None"
    and 3: "handle_one_request MyHTTPRequestHandler demo_lib demo_world ?p =
          send_error MyHTTPRequestHandler demo_lib 501
            (Some (''Unsupported method ('' @ py_repr demo_lib (command ?p) @ '')'')) None ?p"
    unfolding cp by blast+
  from only_GET_is_overridden [of "''HEAD''" ?h demo_lib demo_world] ch
  have 4: "handle_one_request MyHTTPRequestHandler demo_lib demo_world ?h =
          SimpleHTTPRequestHandler_do_HEAD MyHTTPRequestHandler demo_lib demo_world ?h"
    by blast
  from 1 2 have 5: "lookup MyHTTPRequestHandler ''do_POST'' = None"
    "lookup SimpleHTTPRequestHandler ''do_POST'' = None"
    unfolding cp by simp_all
  from 3 have 6: "handle_one_request MyHTTPRequestHandler demo_lib demo_world ?p =
          send_error MyHTTPRequestHandler demo_lib 501
            (Some (''Unsupported method ('' @ [CHR 0x27] @ ''POST'' @ [CHR 0x27] @ '')'')) None ?p"
    unfolding cp r by simp
  from 4 5 6 show ?thesis by blast
qed

subsection \<open>The serving loop\<close>

lemma finish_request_fields:
  "cwd (finish_request L w r) = cwd w"
  "stdout (finish_request L w r) = stdout w"
  "listening (finish_request L w r) = listening w"
  "length (sent (finish_request L w r)) = Suc (length (sent w))"
  "same_files w (finish_request L w r)"
  by (simp_all add: finish_request_def same_files_def split: sum.splits)

lemma same_files_refl: "same_files w w"
  by (simp add: same_files_def)

lemma same_files_trans: "same_files w w1 \<Longrightarrow> same_files w1 w2 \<Longrightarrow> same_files w w2"
  by (simp add: same_files_def)

lemma serve_forever_fields:
  "cwd (fst (serve_forever L w evs)) = cwd w \<and>
   stdout (fst (serve_forever L w evs)) = stdout w \<and>
   listening (fst (serve_forever L w evs)) = listening w \<and>
   same_files w (fst (serve_forever L w evs))"
proof (induction L w evs rule: serve_forever.induct)
  case (1 L w)
  show ?case by (simp add: same_files_refl)
next
  case (2 L w evs)
  show ?case by (simp add: same_files_refl)
next
  case (3 L w r evs)
  then show ?case
    using same_files_trans [OF finish_request_fields(5) [of w L r]]
    by (simp add: finish_request_fields)
qed

lemma serve_forever_interrupt:
  "Interrupt \<notin> set evs \<Longrightarrow>
   serve_forever L w (evs @ Interrupt # later) =
     (fst (serve_forever L w evs), Some KeyboardInterrupt)"
proof (induction evs arbitrary: w)
  case Nil
  show ?case by simp
next
  case (Cons e evs)
  then show ?case by (cases e) simp_all
qed


lemma serve_forever_sent:
  "Interrupt \<notin> set evs \<Longrightarrow>
   length (sent (fst (serve_forever L w evs))) = length (sent w) + length evs"
proof (induction evs arbitrary: w)
  case Nil
  show ?case by simp
next
  case (Cons e evs)
  then show ?case by (cases e) (simp_all add: finish_request_fields)
qed

lemma serve_forever_exc:
  "snd (serve_forever L w evs) = None \<or> snd (serve_forever L w evs) = Some KeyboardInterrupt"
  by (induction L w evs rule: serve_forever.induct) simp_all

lemma serve_forever_raises:
  "serve_forever L w evs = (w', Some x) \<Longrightarrow> x = KeyboardInterrupt"
  using serve_forever_exc [of L w evs] by auto

subsection \<open>Start-up and shutdown\<close>

lemma str_nat_PORT: "str_nat PORT = ''8000''"
  by (simp add: PORT_def str_nat.simps digit_char_def)

text \<open>The world in which the server is created: after \<^verbatim>\<open>chdir\<close> and the two prints.\<close>

lemma test_server_started:
  assumes d: "isdir w (dirname (file_abspath w))"
  shows "test_server L w evs =
     (let w3 = print ''Press Ctrl+C to stop''
                 (print ''Starting server at http://localhost:8000''
                    (w\<lparr>cwd := dirname (file_abspath w)\<rparr>))
      in if port_free w PORT
         then (case serve_forever L (w3\<lparr>listening := True\<rparr>) evs of
                 (w5, None) \<Rightarrow> Serving w5
               | (w5, Some x) \<Rightarrow>
                   Exit 0 (server_close (print (CHR 0x0A # ''Server stopped.'') w5)))
         else Traceback OSError w3)"
proof -
  let ?w3 = "print ''Press Ctrl+C to stop''
                 (print ''Starting server at http://localhost:8000''
                    (w\<lparr>cwd := dirname (file_abspath w)\<rparr>))"
  have pf: "port_free ?w3 PORT = port_free w PORT"
    by (simp add: print_def)
  have unf: "test_server L w evs =
      (case TCPServer_init PORT ?w3 of
         Inl x \<Rightarrow> Traceback x ?w3
       | Inr w4 \<Rightarrow>
           (case serve_forever L w4 evs of
              (w5, None) \<Rightarrow> Serving w5
            | (w5, Some KeyboardInterrupt) \<Rightarrow>
                Exit 0 (server_close (print (CHR 0x0A # ''Server stopped.'') w5))
            | (w5, Some x) \<Rightarrow> Traceback x (server_close w5)))"
    using d by (simp add: test_server_def chdir_def str_nat_PORT Let_def)
  show ?thesis
  proof (cases "port_free w PORT")
    case False
    with pf show ?thesis
      unfolding unf Let_def by (simp add: TCPServer_init_def)
  next
    case True
    obtain w5 r where sf: "serve_forever L (?w3\<lparr>listening := True\<rparr>) evs = (w5, r)"
      by (cases "serve_forever L (?w3\<lparr>listening := True\<rparr>) evs")
    show ?thesis
    proof (cases r)
      case None
      with True pf sf show ?thesis
        unfolding unf Let_def by (simp add: TCPServer_init_def)
    next
      case (Some x)
      with sf have "x = KeyboardInterrupt" by (auto dest: serve_forever_raises)
      with Some True pf sf show ?thesis
        unfolding unf Let_def by (simp add: TCPServer_init_def)
    qed
  qed
qed

text \<open>
  Claim C4. The server is up (the script's directory exists, the port could be bound) and
  has served the connections \<open>evs\<close> when the interrupt arrives. Then the script exits
  with status 0; all it has printed is the two start-up lines, an empty line and the line
  \<^verbatim>\<open>Server stopped.\<close>; the server socket is closed; and the connections that come
  after the interrupt are not served: they make no difference to the outcome.
\<close>

theorem interrupt_stops_the_server:
  assumes "isdir w (dirname (file_abspath w))" and "port_free w PORT"
    and "Interrupt \<notin> set evs"
  shows "\<exists>w'. test_server L w (evs @ Interrupt # later) = Exit 0 w' \<and>
           stdout w' = stdout w @ ''Starting server at http://localhost:8000'' @ [CHR 0x0A]
             @ ''Press Ctrl+C to stop'' @ [CHR 0x0A]
             @ [CHR 0x0A] @ ''Server stopped.'' @ [CHR 0x0A] \<and>
           \<not> listening w' \<and>
           length (sent w') = length (sent w) + length evs \<and>
           test_server L w (evs @ Interrupt # later) = test_server L w (evs @ [Interrupt])"
proof -
  let ?w4 = "(print ''Press Ctrl+C to stop''
                 (print ''Starting server at http://localhost:8000''
                    (w\<lparr>cwd := dirname (file_abspath w)\<rparr>)))\<lparr>listening := True\<rparr>"
  let ?w5 = "fst (serve_forever L ?w4 evs)"
  let ?w' = "server_close (print (CHR 0x0A # ''Server stopped.'') ?w5)"
  have run: "test_server L w (evs @ Interrupt # xs) = Exit 0 ?w'" for xs
    using assms(2)
    by (simp add: test_server_started [OF assms(1)] serve_forever_interrupt [OF assms(3)] Let_def)
  have "stdout ?w' = stdout w @ ''Starting server at http://localhost:8000'' @ [CHR 0x0A]
             @ ''Press Ctrl+C to stop'' @ [CHR 0x0A]
             @ [CHR 0x0A] @ ''Server stopped.'' @ [CHR 0x0A]"
    using serve_forever_fields [of L ?w4 evs]
    by (simp add: server_close_def print_def)
  moreover have "\<not> listening ?w'"
    by (simp add: server_close_def)
  moreover have "length (sent ?w') = length (sent w) + length evs"
    using serve_forever_sent [OF assms(3), of L ?w4]
    by (simp add: server_close_def print_def)
  moreover have "test_server L w (evs @ Interrupt # later) = test_server L w (evs @ [Interrupt])"
    by (simp only: run)
  ultimately show ?thesis
    using run [of later] by blast
qed

theorem interrupt_stops_the_server_witness:
  "isdir demo_world (dirname (file_abspath demo_world)) \<and> port_free demo_world PORT \<and>
   Interrupt \<notin> set [Connection (demo_request ''GET'' ''/'' ''HTTP/1.1'')] \<and>
   (\<exists>w'. test_server demo_lib demo_world
            ([Connection (demo_request ''GET'' ''/'' ''HTTP/1.1'')] @
             Interrupt # [Connection (demo_request ''GET'' ''/index.html'' ''HTTP/1.1'')]) =
          Exit 0 w' \<and>
        stdout w' = ''Starting server at http://localhost:8000'' @ [CHR 0x0A]
             @ ''Press Ctrl+C to stop'' @ [CHR 0x0A]
             @ [CHR 0x0A] @ ''Server stopped.'' @ [CHR 0x0A] \<and>
        \<not> listening w' \<and> length (sent w') = 1)"
proof -
  have d: "isdir demo_world (dirname (file_abspath demo_world))"
    by code_simp
  have p: "port_free demo_world PORT"
    by (simp add: demo_world_def)
  have i: "Interrupt \<notin> set [Connection (demo_request ''GET'' ''/'' ''HTTP/1.1'')]"
    by simp
  have e: "stdout demo_world = []" "sent demo_world = []"
    by (simp_all add: demo_world_def)
  from interrupt_stops_the_server [OF d p i, of demo_lib
      "[Connection (demo_request ''GET'' ''/index.html'' ''HTTP/1.1'')]"]
  obtain w' where
    "test_server demo_lib demo_world
       ([Connection (demo_request ''GET'' ''/'' ''HTTP/1.1'')] @
        Interrupt # [Connection (demo_request ''GET'' ''/index.html'' ''HTTP/1.1'')]) = Exit 0 w'"
    "stdout w' = ''Starting server at http://localhost:8000'' @ [CHR 0x0A]
             @ ''Press Ctrl+C to stop'' @ [CHR 0x0A]
             @ [CHR 0x0A] @ ''Server stopped.'' @ [CHR 0x0A]"
    "\<not> listening w'" "length (sent w') = 1"
    by (auto simp add: e)
  with d p i show ?thesis
    by blast
qed

text \<open>
  Claim C9. When the port cannot be bound, the script ends with the \<^verbatim>\<open>OSError\<close> of
  \<^verbatim>\<open>TCPServer\<close>, uncaught, in a world where both start-up lines, the first with the
  URL, are already printed, and where no socket listens: the lines are printed before the
  socket is bound.
\<close>

theorem startup_lines_are_printed_before_binding:
  assumes "isdir w (dirname (file_abspath w))" and "\<not> port_free w PORT"
  shows "\<exists>w'. test_server L w evs = Traceback OSError w' \<and>
           stdout w' = stdout w @ ''Starting server at http://localhost:8000'' @ [CHR 0x0A]
             @ ''Press Ctrl+C to stop'' @ [CHR 0x0A] \<and>
           listening w' = listening w \<and> sent w' = sent w"
  using assms(2)
  by (simp add: test_server_started [OF assms(1)] Let_def print_def)

theorem startup_lines_are_printed_before_binding_witness:
  "isdir (demo_world\<lparr>port_free := (\<lambda>n. n \<noteq> 8000)\<rparr>)
     (dirname (file_abspath (demo_world\<lparr>port_free := (\<lambda>n. n \<noteq> 8000)\<rparr>))) \<and>
   \<not> port_free (demo_world\<lparr>port_free := (\<lambda>n. n \<noteq> 8000)\<rparr>) PORT \<and>
   (\<exists>w'. test_server demo_lib (demo_world\<lparr>port_free := (\<lambda>n. n \<noteq> 8000)\<rparr>)
            [Connection (demo_request ''GET'' ''/'' ''HTTP/1.1'')] = Traceback OSError w' \<and>
        stdout w' = ''Starting server at http://localhost:8000'' @ [CHR 0x0A]
             @ ''Press Ctrl+C to stop'' @ [CHR 0x0A] \<and>
        \<not> listening w' \<and> sent w' = [])"
proof -
  let ?w = "demo_world\<lparr>port_free := (\<lambda>n. n \<noteq> 8000)\<rparr>"
  have d: "isdir ?w (dirname (file_abspath ?w))"
    by code_simp
  have p: "\<not> port_free ?w PORT"
    by (simp add: PORT_def)
  have e: "stdout ?w = []" "sent ?w = []" "\<not> listening ?w"
    by (simp_all add: demo_world_def)
  from startup_lines_are_printed_before_binding [OF d p, of demo_lib
      "[Connection (demo_request ''GET'' ''/'' ''HTTP/1.1'')]"]
  obtain w' where
    "test_server demo_lib ?w [Connection (demo_request ''GET'' ''/'' ''HTTP/1.1'')] =
       Traceback OSError w'"
    "stdout w' = ''Starting server at http://localhost:8000'' @ [CHR 0x0A]
             @ ''Press Ctrl+C to stop'' @ [CHR 0x0A]"
    "\<not> listening w'" "sent w' = []"
    by (auto simp add: e)
  with d p show ?thesis
    by blast
qed

subsection \<open>Where files are looked up\<close>





subsection \<open>Files that cannot be served\<close>






end
